theory Spec2Isabelle
  imports
    Complex_Main
    "HOL-Library.Log_Nat"
    "HOL-Library.Char_ord"
    "HOL-Library.List_Lexorder"
    "HOL-Library.Multiset"
begin

section \<open>Python floats\<close>

text \<open>
  Every amount of \<^verbatim>\<open>main.py\<close> is a Python \<^verbatim>\<open>float\<close>, an IEEE binary64 number. A float is
  modelled by its exact value, a rational, and every arithmetic operation rounds its exact
  result to the nearest number with a 53-bit significand, ties to even (\<open>fl\<close>). The exponent
  range is taken unbounded: subnormal numbers and NaN are outside the model, and so is
  overflow to infinity, except for the one quotient of two floats that the code computes
  (\<open>float_truediv\<close>), which can overflow for amounts well inside the float range.
\<close>

definition round_half_even :: "rat \<Rightarrow> int" where
  "round_half_even x =
     (let f = \<lfloor>x\<rfloor>; d = x - of_int f
      in if d < 1 / 2 then f else if 1 / 2 < d then f + 1 else if even f then f else f + 1)"

definition pow2 :: "int \<Rightarrow> rat" where
  "pow2 e = (if 0 \<le> e then 2 ^ nat e else 1 / 2 ^ nat (- e))"

text \<open>For \<open>0 < x\<close>, \<open>binade x\<close> is the exponent \<open>e\<close> with \<open>2 ^ e \<le> x < 2 ^ (e + 1)\<close>.\<close>

definition binade :: "rat \<Rightarrow> int" where
  "binade x =
     (if 1 \<le> x then bitlen \<lfloor>x\<rfloor> - 1
      else let b = bitlen \<lfloor>1 / x\<rfloor> in if x * 2 ^ nat (b - 1) = 1 then 1 - b else - b)"

definition fl :: "rat \<Rightarrow> rat" where
  "fl x =
     (if x = 0 then 0
      else let u = pow2 (binade \<bar>x\<bar> - 52) in of_int (round_half_even (x / u)) * u)"

definition fadd :: "rat \<Rightarrow> rat \<Rightarrow> rat" where
  "fadd a b = fl (a + b)"

definition fsub :: "rat \<Rightarrow> rat \<Rightarrow> rat" where
  "fsub a b = fl (a - b)"

definition fmul :: "rat \<Rightarrow> rat \<Rightarrow> rat" where
  "fmul a b = fl (a * b)"

datatype error = IntegrityError | ZeroDivisionError

text \<open>
  Python's \<^verbatim>\<open>a / b\<close> on two row counts: raises \<^verbatim>\<open>ZeroDivisionError\<close> when \<^verbatim>\<open>b\<close> is
  zero, and is the float nearest to the quotient otherwise.
\<close>

definition py_truediv :: "rat \<Rightarrow> rat \<Rightarrow> error + rat" where
  "py_truediv a b = (if b = 0 then Inl ZeroDivisionError else Inr (fl (a / b)))"

text \<open>
  Python's \<^verbatim>\<open>a / b\<close> on two floats: raises \<^verbatim>\<open>ZeroDivisionError\<close> when \<^verbatim>\<open>b\<close> is zero.
  Otherwise the quotient is rounded, and a rounded quotient of magnitude \<open>2 ^ 1024\<close> or more
  overflows: the result is the float infinity of its sign, with no exception.
\<close>

datatype xfloat = Finite rat | PosInf | NegInf

definition float_limit :: rat where
  "float_limit = 2 ^ 1024"

definition float_truediv :: "rat \<Rightarrow> rat \<Rightarrow> error + xfloat" where
  "float_truediv a b =
     (if b = 0 then Inl ZeroDivisionError
      else let q = fl (a / b)
           in Inr (if float_limit \<le> q then PosInf
                   else if q \<le> - float_limit then NegInf else Finite q))"

text \<open>
  Python's \<^verbatim>\<open>round(x, n)\<close> on a float: the exact value of \<^verbatim>\<open>x\<close> is rounded to \<^verbatim>\<open>n\<close>
  decimals, ties to even, and the float nearest to that decimal is returned.
\<close>

definition py_round :: "rat \<Rightarrow> nat \<Rightarrow> rat" where
  "py_round x n = fl (of_int (round_half_even (x * 10 ^ n)) / 10 ^ n)"

text \<open>Python's \<^verbatim>\<open>max(0, x)\<close>: \<^verbatim>\<open>x\<close> when \<^verbatim>\<open>x > 0\<close>, the first argument otherwise.\<close>

definition py_max0 :: "rat \<Rightarrow> rat" where
  "py_max0 x = (if 0 < x then x else 0)"

section \<open>The record store\<close>

text \<open>
  The five tables of \<^verbatim>\<open>init_db\<close>, each a list of rows in insertion order. Text columns are
  byte strings, compared bytewise as SQLite's default collation does; \<^verbatim>\<open>REAL\<close> columns are
  floats; a nullable column is an \<open>option\<close>. The \<^verbatim>\<open>investors\<close> column holds the JSON text
  of a list of names and is modelled by that list.
\<close>

record startup =
  s_id :: string
  s_name :: string
  s_stage :: string
  s_founded_date :: "string option"
  s_created_at :: string
  s_updated_at :: string

record metric =
  m_id :: string
  m_startup_id :: string
  m_metric_type :: string
  m_value :: rat
  m_period :: string
  m_notes :: string
  m_recorded_at :: string

record customer =
  c_id :: string
  c_startup_id :: string
  c_name :: string
  c_plan :: string
  c_mrr :: rat
  c_status :: string
  c_started_at :: string
  c_churned_at :: "string option"
  c_notes :: string

record employee =
  e_id :: string
  e_startup_id :: string
  e_name :: string
  e_role :: string
  e_department :: string
  e_salary :: rat
  e_hired_at :: string
  e_left_at :: "string option"

record funding_round =
  f_id :: string
  f_startup_id :: string
  f_round_name :: string
  f_amount :: rat
  f_valuation :: "rat option"
  f_closed_at :: string
  f_investors :: "string list"
  f_notes :: string

record db =
  startups :: "startup list"
  metrics :: "metric list"
  customers :: "customer list"
  employees :: "employee list"
  funding_rounds :: "funding_round list"

text \<open>The store right after \<^verbatim>\<open>init_db\<close> on a new file: five empty tables.\<close>

definition init_db :: db where
  "init_db = \<lparr>startups = [], metrics = [], customers = [], employees = [], funding_rounds = []\<rparr>"

text \<open>
  SQL \<^verbatim>\<open>SUM\<close> over a \<^verbatim>\<open>NOT NULL REAL\<close> column, as SQLite 3.44 and later compute it:
  \<^verbatim>\<open>NULL\<close> when no row is selected; otherwise the rows are added in scan order by
  Kahan-Babuska-Neumaier summation. The running sum \<^verbatim>\<open>rSum\<close> and the error term \<^verbatim>\<open>rErr\<close>
  start at \<^verbatim>\<open>0.0\<close>; a row \<^verbatim>\<open>r\<close> replaces \<^verbatim>\<open>rSum\<close> by \<^verbatim>\<open>t = rSum + r\<close> and adds to
  \<^verbatim>\<open>rErr\<close> the float \<^verbatim>\<open>(rSum - t) + r\<close> when \<^verbatim>\<open>fabs(rSum) > fabs(r)\<close> and
  \<^verbatim>\<open>(r - t) + rSum\<close> otherwise; the result is \<^verbatim>\<open>rSum + rErr\<close>. (Earlier versions of
  SQLite return the running sum alone.)
\<close>

definition kbn_step :: "rat \<times> rat \<Rightarrow> rat \<Rightarrow> rat \<times> rat" where
  "kbn_step acc r =
     (let s = fst acc; t = fadd s r
      in (t, fadd (snd acc)
               (if \<bar>s\<bar> > \<bar>r\<bar> then fadd (fsub s t) r else fadd (fsub r t) s)))"

definition kbn_sum :: "rat list \<Rightarrow> rat" where
  "kbn_sum xs = (let acc = foldl kbn_step (0, 0) xs in fadd (fst acc) (snd acc))"

definition sql_sum :: "rat list \<Rightarrow> rat option" where
  "sql_sum xs = (if xs = [] then None else Some (kbn_sum xs))"

text \<open>Python's \<^verbatim>\<open>v or 0.0\<close> on a nullable float: \<^verbatim>\<open>None\<close> and \<^verbatim>\<open>0.0\<close> are both falsy.\<close>

definition or_zero :: "rat option \<Rightarrow> rat" where
  "or_zero v = (case v of None \<Rightarrow> 0 | Some x \<Rightarrow> if x = 0 then 0 else x)"

text \<open>Python's \<^verbatim>\<open>period or default\<close> on an optional string: \<^verbatim>\<open>None\<close> and \<^verbatim>\<open>""\<close> are falsy.\<close>

definition or_default :: "string option \<Rightarrow> string \<Rightarrow> string" where
  "or_default p d = (case p of None \<Rightarrow> d | Some s \<Rightarrow> if s = [] then d else s)"

text \<open>
  SQL \<^verbatim>\<open>LIKE\<close> as SQLite evaluates it with no \<^verbatim>\<open>ESCAPE\<close>: \<^verbatim>\<open>%\<close> matches any run of
  characters, \<^verbatim>\<open>_\<close> matches one character, every other character matches itself, ASCII
  letters without regard to case. The first argument is the pattern.
\<close>

definition ascii_lower :: "char \<Rightarrow> char" where
  "ascii_lower c =
     (let n = (of_char c :: nat) in if 65 \<le> n \<and> n \<le> 90 then char_of (n + 32) else c)"

fun sql_like :: "string \<Rightarrow> string \<Rightarrow> bool" where
  "sql_like [] s = (s = [])"
| "sql_like (p # ps) [] = (p = CHR ''%'' \<and> sql_like ps [])"
| "sql_like (p # ps) (c # cs) =
     (if p = CHR ''%'' then sql_like ps (c # cs) \<or> sql_like (p # ps) cs
      else (p = CHR ''_'' \<or> ascii_lower p = ascii_lower c) \<and> sql_like ps cs)"

text \<open>\<^verbatim>\<open>col LIKE pat\<close> on a nullable column: \<^verbatim>\<open>NULL\<close> never matches.\<close>

definition null_like :: "string option \<Rightarrow> string \<Rightarrow> bool" where
  "null_like v pat = (case v of None \<Rightarrow> False | Some t \<Rightarrow> sql_like pat t)"

section \<open>StartupMetricsService\<close>

text \<open>
  Every method opens the store, runs its statements and commits. The model passes the store
  in and, for a write, returns the new store with the method's result. What a method reads
  from the environment is an argument placed before the store: the identifier from
  \<^verbatim>\<open>uuid.uuid4()\<close>, the timestamp from \<^verbatim>\<open>datetime.utcnow().isoformat()\<close> and the month
  from \<^verbatim>\<open>datetime.utcnow().strftime("%Y-%m")\<close>. An \<^verbatim>\<open>INSERT\<close> whose identifier is
  already a primary key of the table raises \<^verbatim>\<open>sqlite3.IntegrityError\<close> and leaves the store
  as it was. \<^verbatim>\<open>get_conn\<close> never switches \<^verbatim>\<open>PRAGMA foreign_keys\<close> on, so SQLite does not
  check the \<^verbatim>\<open>REFERENCES\<close> clauses of the schema.
\<close>

definition create_startup ::
  "string \<Rightarrow> string \<Rightarrow> db \<Rightarrow> string \<Rightarrow> string \<Rightarrow> string option \<Rightarrow> error + (db \<times> startup)" where
  "create_startup sid now d name stage founded_date =
     (if sid \<in> set (map s_id (startups d)) then Inl IntegrityError
      else
        let s = \<lparr>s_id = sid, s_name = name, s_stage = stage, s_founded_date = founded_date,
                 s_created_at = now, s_updated_at = now\<rparr>
        in Inr (d\<lparr>startups := startups d @ [s]\<rparr>, s))"

definition record_metric ::
  "string \<Rightarrow> string \<Rightarrow> string \<Rightarrow> db \<Rightarrow> string \<Rightarrow> string \<Rightarrow> rat \<Rightarrow> string option \<Rightarrow> string
     \<Rightarrow> error + (db \<times> metric)" where
  "record_metric mid now month d startup_id metric_type val period notes =
     (if mid \<in> set (map m_id (metrics d)) then Inl IntegrityError
      else
        let m = \<lparr>m_id = mid, m_startup_id = startup_id, m_metric_type = metric_type,
                 m_value = val, m_period = or_default period month, m_notes = notes,
                 m_recorded_at = now\<rparr>
        in Inr (d\<lparr>metrics := metrics d @ [m]\<rparr>, m))"

record customer_info =
  ci_id :: string
  ci_name :: string
  ci_mrr :: rat
  ci_plan :: string

definition add_customer ::
  "string \<Rightarrow> string \<Rightarrow> db \<Rightarrow> string \<Rightarrow> string \<Rightarrow> rat \<Rightarrow> string \<Rightarrow> error + (db \<times> customer_info)" where
  "add_customer cid now d startup_id name mrr plan =
     (if cid \<in> set (map c_id (customers d)) then Inl IntegrityError
      else
        let c = \<lparr>c_id = cid, c_startup_id = startup_id, c_name = name, c_plan = plan,
                 c_mrr = mrr, c_status = ''active'', c_started_at = now, c_churned_at = None,
                 c_notes = ''''\<rparr>
        in Inr (d\<lparr>customers := customers d @ [c]\<rparr>,
                \<lparr>ci_id = cid, ci_name = name, ci_mrr = mrr, ci_plan = plan\<rparr>))"

text \<open>
  \<^verbatim>\<open>UPDATE customers SET status='churned', churned_at=? WHERE id=?\<close>: what the statement
  does to one row, and to the table. No row with that id is no error.
\<close>

definition mark_churned :: "string \<Rightarrow> string \<Rightarrow> customer \<Rightarrow> customer" where
  "mark_churned now customer_id c =
     (if c_id c = customer_id then c\<lparr>c_status := ''churned'', c_churned_at := Some now\<rparr>
      else c)"

definition churn_customer :: "string \<Rightarrow> db \<Rightarrow> string \<Rightarrow> db" where
  "churn_customer now d customer_id =
     d\<lparr>customers := map (mark_churned now customer_id) (customers d)\<rparr>"

record employee_info =
  ei_id :: string
  ei_name :: string
  ei_role :: string
  ei_department :: string
  ei_salary :: rat

definition add_employee ::
  "string \<Rightarrow> string \<Rightarrow> db \<Rightarrow> string \<Rightarrow> string \<Rightarrow> string \<Rightarrow> string \<Rightarrow> rat
     \<Rightarrow> error + (db \<times> employee_info)" where
  "add_employee eid now d startup_id name role department salary =
     (if eid \<in> set (map e_id (employees d)) then Inl IntegrityError
      else
        let e = \<lparr>e_id = eid, e_startup_id = startup_id, e_name = name, e_role = role,
                 e_department = department, e_salary = salary, e_hired_at = now,
                 e_left_at = None\<rparr>
        in Inr (d\<lparr>employees := employees d @ [e]\<rparr>,
                \<lparr>ei_id = eid, ei_name = name, ei_role = role, ei_department = department,
                 ei_salary = salary\<rparr>))"

record funding_info =
  fi_id :: string
  fi_round :: string
  fi_amount :: rat
  fi_valuation :: "rat option"

definition add_funding ::
  "string \<Rightarrow> string \<Rightarrow> db \<Rightarrow> string \<Rightarrow> string \<Rightarrow> rat \<Rightarrow> rat option \<Rightarrow> string list option
     \<Rightarrow> error + (db \<times> funding_info)" where
  "add_funding fid now d startup_id round_name amount valuation investors =
     (if fid \<in> set (map f_id (funding_rounds d)) then Inl IntegrityError
      else
        let invs = (case investors of None \<Rightarrow> [] | Some xs \<Rightarrow> xs);
            f = \<lparr>f_id = fid, f_startup_id = startup_id, f_round_name = round_name,
                 f_amount = amount, f_valuation = valuation, f_closed_at = now,
                 f_investors = invs, f_notes = ''''\<rparr>
        in Inr (d\<lparr>funding_rounds := funding_rounds d @ [f]\<rparr>,
                \<lparr>fi_id = fid, fi_round = round_name, fi_amount = amount,
                 fi_valuation = valuation\<rparr>))"

definition calculate_mrr :: "db \<Rightarrow> string \<Rightarrow> rat" where
  "calculate_mrr d startup_id =
     (let total =
            sql_sum (map c_mrr
              (filter (\<lambda>c. c_startup_id c = startup_id \<and> c_status c = ''active'') (customers d)))
      in py_round (or_zero total) 2)"

definition calculate_arr :: "db \<Rightarrow> string \<Rightarrow> rat" where
  "calculate_arr d startup_id = py_round (fmul (calculate_mrr d startup_id) 12) 2"

record churn_result =
  cr_period :: string
  customers_at_start :: nat
  churned :: nat
  churn_rate_pct :: rat

definition calculate_churn_rate :: "string \<Rightarrow> db \<Rightarrow> string \<Rightarrow> string option \<Rightarrow> error + churn_result" where
  "calculate_churn_rate month d startup_id period0 =
     (let period = or_default period0 month;
          total_start =
            length (filter (\<lambda>c. c_startup_id c = startup_id \<and> c_started_at c < period @ ''-01'')
                      (customers d));
          n_churned =
            length (filter (\<lambda>c. c_startup_id c = startup_id \<and> c_status c = ''churned'' \<and>
                                 null_like (c_churned_at c) (period @ ''%''))
                      (customers d))
      in case (if total_start > 0
               then (case py_truediv (of_nat n_churned) (of_nat total_start) of
                       Inl e \<Rightarrow> Inl e | Inr q \<Rightarrow> Inr (fmul q 100))
               else Inr 0) of
           Inl e \<Rightarrow> Inl e
         | Inr rate \<Rightarrow>
             Inr \<lparr>cr_period = period, customers_at_start = total_start, churned = n_churned,
                  churn_rate_pct = py_round rate 2\<rparr>)"

text \<open>
  The value under \<^verbatim>\<open>"runway_months"\<close> is a float or the one-character string
  \<^verbatim>\<open>"\xe2\x88\x9e"\<close> (the infinity sign, three bytes in UTF-8). The float is finite
  (\<open>Num\<close>) or the negative infinity (\<open>MinusInfinity\<close>).
\<close>

datatype num_or_str = Num rat | MinusInfinity | Str string

definition infinity_sign :: string where
  "infinity_sign = [CHR 0xE2, CHR 0x88, CHR 0x9E]"

record runway_result =
  total_raised :: rat
  rr_mrr :: rat
  rr_monthly_burn :: rat
  net_burn :: rat
  runway_months :: num_or_str

text \<open>
  In the method, \<^verbatim>\<open>runway_months\<close> is first a float: \<^verbatim>\<open>float("inf")\<close> when \<^verbatim>\<open>net_burn\<close>
  is 0, the quotient otherwise, which is infinite when the division overflows. The test
  \<^verbatim>\<open>runway_months != float("inf")\<close> sends every positive infinity to the string, and
  \<^verbatim>\<open>round\<close> leaves a negative infinity as it is.
\<close>

definition calculate_runway :: "db \<Rightarrow> string \<Rightarrow> rat \<Rightarrow> error + runway_result" where
  "calculate_runway d startup_id monthly_burn =
     (let raised =
            or_zero (sql_sum (map f_amount
              (filter (\<lambda>f. f_startup_id f = startup_id) (funding_rounds d))));
          mrr = calculate_mrr d startup_id;
          burn = py_max0 (fsub monthly_burn mrr)
      in case (if burn > 0 then float_truediv raised burn else Inr PosInf) of
           Inl e \<Rightarrow> Inl e
         | Inr months \<Rightarrow>
             Inr \<lparr>total_raised = py_round raised 2, rr_mrr = mrr, rr_monthly_burn = monthly_burn,
                  net_burn = py_round burn 2,
                  runway_months =
                    (case months of
                       Finite q \<Rightarrow> Num (py_round q 1)
                     | NegInf \<Rightarrow> MinusInfinity
                     | PosInf \<Rightarrow> Str infinity_sign)\<rparr>)"

record dept_stats =
  ds_count :: nat
  ds_salary :: rat

record headcount_result =
  total_headcount :: nat
  total_salary_cost :: rat
  by_department :: "string \<rightharpoonup> dept_stats"

definition headcount :: "db \<Rightarrow> string \<Rightarrow> headcount_result" where
  "headcount d startup_id =
     (let current = filter (\<lambda>e. e_startup_id e = startup_id \<and> e_left_at e = None) (employees d)
      in \<lparr>total_headcount = length current,
          total_salary_cost = py_round (or_zero (sql_sum (map e_salary current))) 2,
          by_department =
            (\<lambda>dept. let rows = filter (\<lambda>e. e_department e = dept) current
                     in if rows = [] then None
                        else Some \<lparr>ds_count = length rows,
                                   ds_salary = py_round (or_zero (sql_sum (map e_salary rows))) 2\<rparr>)\<rparr>)"

text \<open>
  The snapshot of \<^verbatim>\<open>kpi_dashboard\<close>. The value under \<^verbatim>\<open>"runway"\<close> is the dictionary of
  \<^verbatim>\<open>calculate_runway\<close> or the empty dictionary \<^verbatim>\<open>{}\<close>; \<open>None\<close> stands for the empty one.
\<close>

record dashboard =
  d_startup :: string
  d_mrr :: rat
  d_arr :: rat
  d_churn :: churn_result
  d_runway :: "runway_result option"
  d_headcount :: headcount_result
  d_as_of :: string

definition kpi_dashboard :: "string \<Rightarrow> string \<Rightarrow> db \<Rightarrow> string \<Rightarrow> rat \<Rightarrow> error + dashboard" where
  "kpi_dashboard month now d startup_id monthly_burn =
     (let mrr = calculate_mrr d startup_id;
          arr = calculate_arr d startup_id
      in case calculate_churn_rate month d startup_id None of
           Inl e \<Rightarrow> Inl e
         | Inr churn \<Rightarrow>
             (case (if monthly_burn > 0
                    then (case calculate_runway d startup_id monthly_burn of
                            Inl e \<Rightarrow> Inl e | Inr r \<Rightarrow> Inr (Some r))
                    else Inr None) of
                Inl e \<Rightarrow> Inl e
              | Inr runway \<Rightarrow>
                  let hc = headcount d startup_id;
                      row = find (\<lambda>s. s_id s = startup_id) (startups d);
                      startup_name = (case row of Some s \<Rightarrow> s_name s | None \<Rightarrow> ''Unknown'')
                  in Inr \<lparr>d_startup = startup_name, d_mrr = mrr, d_arr = arr, d_churn = churn,
                          d_runway = runway, d_headcount = hc, d_as_of = now\<rparr>))"

text \<open>
  \<^verbatim>\<open>ORDER BY period\<close>: the selected rows in ascending bytewise order of \<^verbatim>\<open>period\<close>. SQL
  leaves the order of rows with equal periods open; the model keeps them in insertion order.
\<close>

definition metric_history :: "db \<Rightarrow> string \<Rightarrow> string \<Rightarrow> metric list" where
  "metric_history d startup_id metric_type =
     sort_key m_period
       (filter (\<lambda>m. m_startup_id m = startup_id \<and> m_metric_type m = metric_type) (metrics d))"

section \<open>Runs of the service\<close>

text \<open>
  The writing methods as commands, each carrying what the method reads from the environment
  and its arguments. A command whose \<^verbatim>\<open>INSERT\<close> raises leaves the store unchanged: the
  connection's context manager rolls the transaction back.
\<close>

datatype command =
    CreateStartup string string string string "string option"
  | RecordMetric string string string string string rat "string option" string
  | AddCustomer string string string string rat string
  | ChurnCustomer string string
  | AddEmployee string string string string string string rat
  | AddFunding string string string string rat "rat option" "string list option"

definition committed :: "db \<Rightarrow> error + (db \<times> 'a) \<Rightarrow> db" where
  "committed d r = (case r of Inl e \<Rightarrow> d | Inr (d', x) \<Rightarrow> d')"

fun exec :: "db \<Rightarrow> command \<Rightarrow> db" where
  "exec d (CreateStartup sid now name stage founded) =
     committed d (create_startup sid now d name stage founded)"
| "exec d (RecordMetric mid now month sid mtype val period notes) =
     committed d (record_metric mid now month d sid mtype val period notes)"
| "exec d (AddCustomer cid now sid name mrr plan) =
     committed d (add_customer cid now d sid name mrr plan)"
| "exec d (ChurnCustomer now cid) = churn_customer now d cid"
| "exec d (AddEmployee eid now sid name role dept salary) =
     committed d (add_employee eid now d sid name role dept salary)"
| "exec d (AddFunding fid now sid round_name amount valuation investors) =
     committed d (add_funding fid now d sid round_name amount valuation investors)"

text \<open>The Customer invariant: \<^verbatim>\<open>churned_at\<close> is set exactly when \<^verbatim>\<open>status\<close> is "churned".\<close>

definition customer_ok :: "customer \<Rightarrow> bool" where
  "customer_ok c = ((c_churned_at c \<noteq> None) = (c_status c = ''churned''))"

definition customers_ok :: "db \<Rightarrow> bool" where
  "customers_ok d = list_all customer_ok (customers d)"

section \<open>What the specification names\<close>

text \<open>The recurring amounts of the Customers of a Startup whose status is active.\<close>

definition active_mrrs :: "db \<Rightarrow> string \<Rightarrow> rat list" where
  "active_mrrs d sid =
     map c_mrr (filter (\<lambda>c. c_startup_id c = sid \<and> c_status c = ''active'') (customers d))"

text \<open>The amounts of all FundingRounds of a Startup.\<close>

definition raised_amounts :: "db \<Rightarrow> string \<Rightarrow> rat list" where
  "raised_amounts d sid = map f_amount (filter (\<lambda>f. f_startup_id f = sid) (funding_rounds d))"

text \<open>The Customers of a Startup whose \<^verbatim>\<open>started_at\<close> precedes the first day of the period.\<close>

definition cohort_at_start :: "db \<Rightarrow> string \<Rightarrow> string \<Rightarrow> customer list" where
  "cohort_at_start d sid period =
     filter (\<lambda>c. c_startup_id c = sid \<and> c_started_at c < period @ ''-01'') (customers d)"

text \<open>A Customer that churned within the period: churned, with \<^verbatim>\<open>churned_at\<close> matching it.\<close>

definition churned_in :: "string \<Rightarrow> customer \<Rightarrow> bool" where
  "churned_in period c =
     (c_status c = ''churned'' \<and> null_like (c_churned_at c) (period @ ''%''))"

definition churned_within :: "db \<Rightarrow> string \<Rightarrow> string \<Rightarrow> customer list" where
  "churned_within d sid period =
     filter (\<lambda>c. c_startup_id c = sid \<and> churned_in period c) (customers d)"

text \<open>The percentage \<open>k / n \<times> 100\<close> as the floats compute it, rounded to 2 decimals.\<close>

definition pct :: "nat \<Rightarrow> nat \<Rightarrow> rat" where
  "pct k n = py_round (fmul (fl (of_nat k / of_nat n)) 100) 2"

section \<open>Example stores\<close>

definition acme :: command where
  "acme = CreateStartup ''s1'' ''2024-01-05T08:00:00'' ''Acme'' ''seed'' None"

text \<open>One customer from April; one that started on 10 May and churned on 20 May.\<close>

definition store_may :: db where
  "store_may = foldl exec init_db
     [acme,
      AddCustomer ''c1'' ''2024-04-02T09:00:00'' ''s1'' ''Early'' 500 ''monthly'',
      AddCustomer ''c2'' ''2024-05-10T09:00:00'' ''s1'' ''Brief'' 200 ''monthly'',
      ChurnCustomer ''2024-05-20T17:30:00'' ''c2'']"

definition store_april :: db where
  "store_april = foldl exec init_db
     [acme, AddCustomer ''c1'' ''2024-04-02T09:00:00'' ''s1'' ''Early'' 500 ''monthly'']"

text \<open>Only a churned customer.\<close>

definition store_lost :: db where
  "store_lost = foldl exec init_db
     [acme,
      AddCustomer ''c2'' ''2024-05-10T09:00:00'' ''s1'' ''Brief'' 200 ''monthly'',
      ChurnCustomer ''2024-05-20T17:30:00'' ''c2'']"

text \<open>One active customer paying \<^verbatim>\<open>0.07\<close>, the float nearest to \<open>7 / 100\<close>.\<close>

definition store_cents :: db where
  "store_cents = foldl exec init_db
     [acme, AddCustomer ''c1'' ''2024-04-02T09:00:00'' ''s1'' ''Tiny'' (fl (7 / 100)) ''monthly'']"

text \<open>One funding round of 100 and no customer.\<close>

definition store_funded :: db where
  "store_funded = foldl exec init_db
     [acme, AddFunding ''f1'' ''2024-02-01T10:00:00'' ''s1'' ''Seed'' 100 None None]"

text \<open>Three observations of one label, recorded out of period order.\<close>

definition store_metrics :: db where
  "store_metrics = foldl exec init_db
     [acme,
      RecordMetric ''m1'' ''2024-03-09T10:00:00'' ''2024-03'' ''s1'' ''nps'' 40 (Some ''2024-03'') [],
      RecordMetric ''m2'' ''2024-03-09T10:05:00'' ''2024-03'' ''s1'' ''nps'' 31 (Some ''2024-01'') [],
      RecordMetric ''m3'' ''2024-03-09T10:10:00'' ''2024-03'' ''s1'' ''nps'' 35 (Some ''2024-02'') []]"

text \<open>Two active customers paying 500 and 300, and one churned customer.\<close>

definition store_two :: db where
  "store_two = foldl exec init_db
     [acme,
      AddCustomer ''c1'' ''2024-04-02T09:00:00'' ''s1'' ''Customer A'' 500 ''monthly'',
      AddCustomer ''c2'' ''2024-05-10T09:00:00'' ''s1'' ''Brief'' 200 ''monthly'',
      AddCustomer ''c3'' ''2024-05-11T09:00:00'' ''s1'' ''Customer B'' 300 ''monthly'',
      ChurnCustomer ''2024-05-20T17:30:00'' ''c2'']"

text \<open>
  Three active customers paying the floats \<^verbatim>\<open>95.881\<close>, \<^verbatim>\<open>90.522\<close> and \<^verbatim>\<open>16.072\<close>, whose
  sum lies next to a rounding boundary of the second decimal.
\<close>

definition store_three :: db where
  "store_three = foldl exec init_db
     [acme,
      AddCustomer ''c1'' ''2024-04-02T09:00:00'' ''s1'' ''One'' (fl (95881 / 1000)) ''monthly'',
      AddCustomer ''c2'' ''2024-04-03T09:00:00'' ''s1'' ''Two'' (fl (90522 / 1000)) ''monthly'',
      AddCustomer ''c3'' ''2024-04-04T09:00:00'' ''s1'' ''Three'' (fl (16072 / 1000)) ''monthly'']"

text \<open>One funding round of 500000 and no customer.\<close>

definition store_seed :: db where
  "store_seed = foldl exec init_db
     [acme, AddFunding ''f1'' ''2024-02-01T10:00:00'' ''s1'' ''Seed'' 500000 None None]"

text \<open>The May customer of \<open>store_may\<close>, as the store holds it after the churn.\<close>

definition brief :: customer where
  "brief = \<lparr>c_id = ''c2'', c_startup_id = ''s1'', c_name = ''Brief'', c_plan = ''monthly'',
             c_mrr = 200, c_status = ''churned'', c_started_at = ''2024-05-10T09:00:00'',
             c_churned_at = Some ''2024-05-20T17:30:00'', c_notes = []\<rparr>"

section \<open>Properties of the float operations\<close>

lemma pow2_powi: "pow2 e = power_int 2 e"
  by (simp add: pow2_def power_int_def inverse_eq_divide power_one_over)

lemma pow2_pos: "0 < pow2 e"
  by (simp add: pow2_powi)

lemma pow2_shift: "pow2 (e - 52) = pow2 e / 2 ^ 52"
  by (simp add: pow2_powi power_int_diff)

lemma binade_lower:
  assumes "0 < x"
  shows "pow2 (binade x) \<le> x"
proof (cases "1 \<le> x")
  case True
  then have fx: "0 < \<lfloor>x\<rfloor>" by linarith
  from bitlen_bounds [OF fx] have b: "2 ^ nat (bitlen \<lfloor>x\<rfloor> - 1) \<le> \<lfloor>x\<rfloor>" by simp
  have ge: "0 \<le> bitlen \<lfloor>x\<rfloor> - 1"
    using fx bitlen_eq_zero_iff [of "\<lfloor>x\<rfloor>"] bitlen_nonneg [of "\<lfloor>x\<rfloor>"] by linarith
  have "pow2 (binade x) = of_int (2 ^ nat (bitlen \<lfloor>x\<rfloor> - 1))"
    using True ge by (simp add: binade_def pow2_def)
  also have "\<dots> \<le> of_int \<lfloor>x\<rfloor>"
    using b by (simp only: of_int_le_iff)
  also have "\<dots> \<le> x" by simp
  finally show ?thesis .
next
  case False
  define b where "b = bitlen \<lfloor>1 / x\<rfloor>"
  from False assms have "1 < 1 / x" by simp
  then have fx: "0 < \<lfloor>1 / x\<rfloor>" by linarith
  have bpos: "1 \<le> b"
    unfolding b_def using fx bitlen_eq_zero_iff [of "\<lfloor>1 / x\<rfloor>"] bitlen_nonneg [of "\<lfloor>1 / x\<rfloor>"]
    by linarith
  show ?thesis
  proof (cases "x * 2 ^ nat (b - 1) = 1")
    case True
    then have "x = 1 / 2 ^ nat (b - 1)"
      by (simp add: field_simps)
    moreover have "pow2 (binade x) = pow2 (1 - b)"
      using False True by (simp add: binade_def b_def Let_def)
    moreover have "pow2 (1 - b) = 1 / 2 ^ nat (b - 1)"
      using bpos by (auto simp: pow2_def)
    ultimately show ?thesis by simp
  next
    case ne: False
    have pb: "pow2 (binade x) = 1 / 2 ^ nat b"
      using False ne bpos by (simp add: binade_def b_def [symmetric] Let_def pow2_def)
    from bitlen_bounds [OF fx] have "\<lfloor>1 / x\<rfloor> < 2 ^ nat b" by (simp add: b_def)
    then have "\<lfloor>1 / x\<rfloor> + 1 \<le> 2 ^ nat b" by simp
    then have "of_int (\<lfloor>1 / x\<rfloor> + 1) \<le> (of_int (2 ^ nat b) :: rat)"
      by (simp only: of_int_le_iff)
    moreover have "1 / x < of_int (\<lfloor>1 / x\<rfloor> + 1)" by linarith
    ultimately have "1 / x \<le> 2 ^ nat b" by simp
    then have "1 \<le> 2 ^ nat b * x" using assms by (simp add: field_simps)
    then have "1 / 2 ^ nat b \<le> x" by (simp add: field_simps)
    with pb show ?thesis by simp
  qed
qed

lemma ulp_le:
  assumes "x \<noteq> 0"
  shows "pow2 (binade \<bar>x\<bar> - 52) \<le> \<bar>x\<bar> / 2 ^ 52"
  using binade_lower [of "\<bar>x\<bar>"] assms by (simp add: pow2_shift divide_right_mono)

lemma rhe_ge1: "1 \<le> y \<Longrightarrow> 1 \<le> round_half_even y"
  unfolding round_half_even_def Let_def by (auto; linarith)

lemma rhe_le_m1: "y \<le> - 1 \<Longrightarrow> round_half_even y \<le> - 1"
  unfolding round_half_even_def Let_def by (auto; linarith)

lemma rhe_err: "\<bar>of_int (round_half_even y) - y\<bar> \<le> 1 / 2"
proof -
  have "of_int \<lfloor>y\<rfloor> \<le> y" "y < of_int \<lfloor>y\<rfloor> + 1" by linarith+
  then show ?thesis
    unfolding round_half_even_def Let_def by (simp add: abs_le_iff)
qed

lemma rhe_of_int: "round_half_even (of_int k) = k"
  unfolding round_half_even_def Let_def by simp

lemma fl_zero: "fl 0 = 0"
  by (simp add: fl_def)

lemma fl_pos:
  assumes "0 < x"
  shows "0 < fl x"
proof -
  define u where "u = pow2 (binade \<bar>x\<bar> - 52)"
  have u: "0 < u" by (simp add: u_def pow2_pos)
  have "u \<le> \<bar>x\<bar> / 2 ^ 52" using ulp_le [of x] assms by (simp add: u_def)
  also have "\<dots> \<le> x" using assms by simp
  finally have "1 \<le> x / u" using u by (simp add: field_simps)
  then have "1 \<le> round_half_even (x / u)" by (rule rhe_ge1)
  then have "0 < (of_int (round_half_even (x / u)) :: rat)" by simp
  then have "0 < of_int (round_half_even (x / u)) * u" using u by simp
  then show ?thesis using assms by (simp add: fl_def Let_def u_def)
qed

lemma fl_neg:
  assumes "x < 0"
  shows "fl x < 0"
proof -
  define u where "u = pow2 (binade \<bar>x\<bar> - 52)"
  have u: "0 < u" by (simp add: u_def pow2_pos)
  have "u \<le> \<bar>x\<bar> / 2 ^ 52" using ulp_le [of x] assms by (simp add: u_def)
  also have "\<dots> \<le> - x" using assms by simp
  finally have "x / u \<le> - 1" using u by (simp add: field_simps)
  then have "round_half_even (x / u) \<le> - 1" by (rule rhe_le_m1)
  then have "(of_int (round_half_even (x / u)) :: rat) < 0" by simp
  then have "of_int (round_half_even (x / u)) * u < 0" using u by (simp add: mult_less_0_iff)
  then show ?thesis using assms by (simp add: fl_def Let_def u_def)
qed

lemma fl_pos_iff: "0 < fl x \<longleftrightarrow> 0 < x"
  using fl_pos [of x] fl_neg [of x] fl_zero by (cases "x = 0"; cases "0 < x") auto

lemma fl_eq_0_iff: "fl x = 0 \<longleftrightarrow> x = 0"
  using fl_pos [of x] fl_neg [of x] fl_zero by (cases "x = 0"; cases "0 < x") auto

lemma fl_err: "\<bar>fl x - x\<bar> \<le> \<bar>x\<bar> / 2 ^ 53"
proof (cases "x = 0")
  case True
  then show ?thesis by (simp add: fl_def)
next
  case False
  define u where "u = pow2 (binade \<bar>x\<bar> - 52)"
  have u: "0 < u" by (simp add: u_def pow2_pos)
  have ul: "u \<le> \<bar>x\<bar> / 2 ^ 52" using ulp_le [OF False] by (simp add: u_def)
  have "fl x - x = (of_int (round_half_even (x / u)) - x / u) * u"
    using False u by (simp add: fl_def Let_def u_def field_simps)
  then have "\<bar>fl x - x\<bar> = \<bar>of_int (round_half_even (x / u)) - x / u\<bar> * u"
    using u by (simp add: abs_mult)
  also have "\<dots> \<le> (1 / 2) * u"
    using rhe_err [of "x / u"] u by (intro mult_right_mono) auto
  also have "\<dots> \<le> (1 / 2) * (\<bar>x\<bar> / 2 ^ 52)"
    using ul by (intro mult_left_mono) auto
  also have "\<dots> = \<bar>x\<bar> / 2 ^ 53" by simp
  finally show ?thesis .
qed

lemma py_round_zero: "py_round 0 n = 0"
  by (simp add: py_round_def rhe_of_int [of 0, simplified] fl_zero)

lemma py_max0_pos_iff: "0 < py_max0 (fsub a b) \<longleftrightarrow> b < a"
  by (simp add: py_max0_def fsub_def fl_pos_iff)

section \<open>Recurring revenue\<close>

lemma kbn_sum_Nil: "kbn_sum [] = 0"
  by (simp add: kbn_sum_def fadd_def fl_zero)

lemma or_zero_sql_sum: "or_zero (sql_sum xs) = kbn_sum xs"
  by (simp add: or_zero_def sql_sum_def kbn_sum_Nil)

lemma calculate_mrr_alt: "calculate_mrr d sid = py_round (kbn_sum (active_mrrs d sid)) 2"
  by (simp add: calculate_mrr_def active_mrrs_def or_zero_sql_sum)

lemma active_mrrs_drop_churned:
  "active_mrrs (d\<lparr>customers := filter (\<lambda>c. c_status c \<noteq> ''churned'') (customers d)\<rparr>) sid
     = active_mrrs d sid"
proof -
  have "filter (\<lambda>c. c_status c \<noteq> ''churned'' \<and> c_startup_id c = sid \<and> c_status c = ''active'') xs
          = filter (\<lambda>c. c_startup_id c = sid \<and> c_status c = ''active'') xs" for xs :: "customer list"
    by (induction xs) auto
  then show ?thesis by (simp add: active_mrrs_def)
qed

lemma fl_of_int:
  assumes "\<bar>n\<bar> < 2 ^ 53"
  shows "fl (of_int n) = of_int n"
proof (cases "n = 0")
  case True
  then show ?thesis by (simp add: fl_zero)
next
  case False
  define x :: rat where "x = of_int n"
  define e where "e = binade \<bar>x\<bar>"
  have x0: "x \<noteq> 0" and xp: "0 < \<bar>x\<bar>" using False by (simp_all add: x_def)
  have "\<bar>x\<bar> = of_int \<bar>n\<bar>" by (simp add: x_def)
  also have "\<dots> < of_int (2 ^ 53)" using assms by (simp only: of_int_less_iff)
  finally have xb: "\<bar>x\<bar> < 2 ^ 53" by simp
  have "power_int 2 e \<le> \<bar>x\<bar>"
    using binade_lower [OF xp] by (simp add: e_def pow2_powi)
  with xb have "power_int (2::rat) e < power_int 2 53" by simp
  then have e53: "e < 53" by (rule power_int_le_imp_less_exp [rotated]) simp_all
  define k where "k = nat (52 - e)"
  have u: "pow2 (e - 52) = 1 / 2 ^ k"
    using e53 by (auto simp: pow2_def k_def)
  have "x / pow2 (e - 52) = of_int (n * 2 ^ k)"
    by (simp add: u x_def)
  then have "round_half_even (x / pow2 (e - 52)) = n * 2 ^ k"
    by (simp only: rhe_of_int)
  then have "fl x = of_int (n * 2 ^ k) * (1 / 2 ^ k)"
    using x0 by (simp add: fl_def Let_def e_def [symmetric] u)
  then show ?thesis by (simp add: x_def)
qed

lemma py_round_of_int:
  assumes "\<bar>n\<bar> < 2 ^ 53"
  shows "py_round (of_int n) 2 = of_int n"
proof -
  have "of_int n * 10 ^ 2 = (of_int (n * 100) :: rat)" by simp
  then have "round_half_even (of_int n * 10 ^ 2) = n * 100"
    by (simp only: rhe_of_int)
  then show ?thesis by (simp add: py_round_def fl_of_int [OF assms])
qed

lemma kbn_step_ints:
  assumes "\<bar>a\<bar> + \<bar>n\<bar> < 2 ^ 53"
  shows "kbn_step (of_int a, 0) (of_int n) = (of_int (a + n), 0)"
proof -
  have t: "fadd (of_int a) (of_int n) = of_int (a + n)"
    using assms fl_of_int [of "a + n"] by (simp add: fadd_def)
  have 1: "fadd (fsub (of_int a) (of_int (a + n))) (of_int n) = 0"
    using assms fl_of_int [of "- n"] by (simp add: fadd_def fsub_def fl_zero)
  have 2: "fadd (fsub (of_int n) (of_int (a + n))) (of_int a) = 0"
    using assms fl_of_int [of "- a"] by (simp add: fadd_def fsub_def fl_zero)
  have 3: "fadd 0 0 = 0" by (simp add: fadd_def fl_zero)
  show ?thesis
    by (simp add: kbn_step_def Let_def t 1 2 3 del: of_int_add)
qed

lemma kbn_ints:
  "\<bar>a\<bar> + sum_list (map abs ns) < 2 ^ 53 \<Longrightarrow>
     foldl kbn_step (of_int a, 0) (map of_int ns) = (of_int (a + sum_list ns), 0)"
proof (induction ns arbitrary: a)
  case Nil
  then show ?case by simp
next
  case (Cons n ns)
  have le: "0 \<le> sum_list (map abs ns)" by (induction ns) auto
  from Cons.prems le have s: "\<bar>a\<bar> + \<bar>n\<bar> < 2 ^ 53" by simp
  from Cons.prems have "\<bar>a + n\<bar> + sum_list (map abs ns) < 2 ^ 53" by simp
  from Cons.IH [OF this] show ?case
    by (simp add: kbn_step_ints [OF s] add.assoc del: of_int_add)
qed

lemma abs_sum_list_le: "\<bar>sum_list ns\<bar> \<le> sum_list (map abs ns)" for ns :: "int list"
  by (induction ns) auto

lemma kbn_sum_ints:
  assumes "sum_list (map abs ns) < 2 ^ 53"
  shows "kbn_sum (map of_int ns) = of_int (sum_list ns)"
proof -
  have "foldl kbn_step (of_int 0, 0) (map of_int ns) = (of_int (0 + sum_list ns), 0)"
    using assms by (intro kbn_ints) simp
  then have "kbn_sum (map of_int ns) = fl (of_int (sum_list ns))"
    by (simp add: kbn_sum_def fadd_def)
  moreover have "\<bar>sum_list ns\<bar> < 2 ^ 53"
    using assms abs_sum_list_le [of ns] by linarith
  ultimately show ?thesis by (simp add: fl_of_int)
qed

lemma whole_list:
  "\<forall>x \<in> set xs. x \<in> \<int> \<Longrightarrow> \<exists>ns. xs = map of_int ns" for xs :: "rat list"
proof (induction xs)
  case Nil
  then show ?case by simp
next
  case (Cons x xs)
  then obtain ns where "xs = map of_int ns" by auto
  moreover from Cons.prems obtain n where "x = of_int n" by (auto elim: Ints_cases)
  ultimately have "x # xs = map of_int (n # ns)" by simp
  then show ?case by (rule exI [of _ "n # ns"])
qed

lemma py_round_kbn_whole:
  fixes xs :: "rat list"
  assumes "\<forall>x \<in> set xs. x \<in> \<int>" and "sum_list (map abs xs) < 2 ^ 53"
  shows "py_round (kbn_sum xs) 2 = sum_list xs"
proof -
  from whole_list [OF assms(1)] obtain ns where xs: "xs = map of_int ns" ..
  have a: "sum_list (map abs xs) = of_int (sum_list (map abs ns))"
    unfolding xs by (induction ns) auto
  have b: "sum_list xs = of_int (sum_list ns)"
    unfolding xs by (induction ns) auto
  from assms(2) a have "(of_int (sum_list (map abs ns)) :: rat) < of_int (2 ^ 53)" by simp
  then have lt: "sum_list (map abs ns) < 2 ^ 53" by (simp only: of_int_less_iff)
  then have "\<bar>sum_list ns\<bar> < 2 ^ 53" using abs_sum_list_le [of ns] by linarith
  then show ?thesis
    by (simp only: xs kbn_sum_ints [OF lt] py_round_of_int) (simp add: b [unfolded xs])
qed

text \<open>
  Claim C6. \<^verbatim>\<open>calculate_mrr\<close> is the sum of \<^verbatim>\<open>mrr\<close> over the Customers of the Startup
  whose status is active, as the store adds floats, rounded to 2 decimals. Churned customers
  do not count: removing them from the store leaves the result as it is. With no active
  customer the result is 0, and so is \<^verbatim>\<open>calculate_arr\<close>. When the amounts are whole numbers
  (with a sum of magnitudes below \<open>2 ^ 53\<close>) no rounding occurs and the result is their sum.
\<close>

theorem calculate_mrr_active_sum:
  "calculate_mrr d sid = py_round (kbn_sum (active_mrrs d sid)) 2
   \<and> calculate_mrr (d\<lparr>customers := filter (\<lambda>c. c_status c \<noteq> ''churned'') (customers d)\<rparr>) sid
       = calculate_mrr d sid
   \<and> (active_mrrs d sid = [] \<longrightarrow> calculate_mrr d sid = 0 \<and> calculate_arr d sid = 0)
   \<and> ((\<forall>x \<in> set (active_mrrs d sid). x \<in> \<int>)
        \<and> sum_list (map abs (active_mrrs d sid)) < 2 ^ 53 \<longrightarrow>
        calculate_mrr d sid = sum_list (active_mrrs d sid))"
proof (intro conjI impI)
  show "calculate_mrr d sid = py_round (kbn_sum (active_mrrs d sid)) 2"
    by (rule calculate_mrr_alt)
  show "calculate_mrr (d\<lparr>customers := filter (\<lambda>c. c_status c \<noteq> ''churned'') (customers d)\<rparr>) sid
          = calculate_mrr d sid"
    by (simp only: calculate_mrr_alt active_mrrs_drop_churned)
next
  assume e: "active_mrrs d sid = []"
  then show m: "calculate_mrr d sid = 0"
    by (simp add: calculate_mrr_alt kbn_sum_Nil py_round_zero)
  show "calculate_arr d sid = 0"
    by (simp add: calculate_arr_def m fmul_def fl_zero py_round_zero)
next
  assume h: "(\<forall>x \<in> set (active_mrrs d sid). x \<in> \<int>)
        \<and> sum_list (map abs (active_mrrs d sid)) < 2 ^ 53"
  show "calculate_mrr d sid = sum_list (active_mrrs d sid)"
    unfolding calculate_mrr_alt
    by (rule py_round_kbn_whole [OF h [THEN conjunct1] h [THEN conjunct2]])
qed

theorem calculate_mrr_active_sum_witness:
  "active_mrrs store_lost ''s1'' = []
   \<and> calculate_mrr store_lost ''s1'' = 0 \<and> calculate_arr store_lost ''s1'' = 0
   \<and> active_mrrs store_two ''s1'' = [500, 300]
   \<and> calculate_mrr store_two ''s1'' = 800
   \<and> active_mrrs store_three ''s1'' = [fl (95881 / 1000), fl (90522 / 1000), fl (16072 / 1000)]
   \<and> calculate_mrr store_three ''s1'' = fl (20247 / 100)"
proof -
  have h: "active_mrrs store_lost ''s1'' = []" by code_simp
  have a: "active_mrrs store_two ''s1'' = [500, 300]" by code_simp
  have w: "(\<forall>x \<in> set (active_mrrs store_two ''s1''). x \<in> \<int>)
        \<and> sum_list (map abs (active_mrrs store_two ''s1'')) < 2 ^ 53"
    by (simp add: a)
  have b: "active_mrrs store_three ''s1''
             = [fl (95881 / 1000), fl (90522 / 1000), fl (16072 / 1000)]"
    by code_simp
  have c: "py_round (kbn_sum [fl (95881 / 1000), fl (90522 / 1000), fl (16072 / 1000)]) 2
             = fl (20247 / 100)"
    by code_simp
  note t0 = calculate_mrr_active_sum [of store_lost "''s1''"]
  note t1 = calculate_mrr_active_sum [of store_two "''s1''"]
  note t2 = calculate_mrr_active_sum [of store_three "''s1''"]
  have 0: "calculate_mrr store_lost ''s1'' = 0 \<and> calculate_arr store_lost ''s1'' = 0"
    by (rule t0 [THEN conjunct2, THEN conjunct2, THEN conjunct1, THEN mp, OF h])
  have 1: "calculate_mrr store_two ''s1'' = 800"
    using t1 [THEN conjunct2, THEN conjunct2, THEN conjunct2, THEN mp, OF w] by (simp add: a)
  have 2: "calculate_mrr store_three ''s1'' = fl (20247 / 100)"
    using t2 [THEN conjunct1] by (simp only: b c)
  from h 0 a 1 b 2 show ?thesis by (intro conjI) (simp_all only:)
qed

lemma py_round2_err: "\<bar>py_round x 2 - x\<bar> \<le> 1 / 200 + (\<bar>x\<bar> + 1 / 200) / 2 ^ 53"
proof -
  define r :: rat where "r = of_int (round_half_even (x * 10 ^ 2)) / 10 ^ 2"
  have "\<bar>of_int (round_half_even (x * 10 ^ 2)) - x * 10 ^ 2\<bar> \<le> 1 / 2"
    by (rule rhe_err)
  moreover have "r - x = (of_int (round_half_even (x * 10 ^ 2)) - x * 10 ^ 2) / 100"
    by (simp add: r_def field_simps)
  ultimately have rx: "\<bar>r - x\<bar> \<le> 1 / 200"
    by (simp only: abs_divide) simp
  have "\<bar>fl r - r\<bar> \<le> \<bar>r\<bar> / 2 ^ 53" by (rule fl_err)
  moreover have "\<bar>r\<bar> \<le> \<bar>x\<bar> + 1 / 200" using rx by linarith
  then have "\<bar>r\<bar> / 2 ^ 53 \<le> (\<bar>x\<bar> + 1 / 200) / 2 ^ 53"
    by (intro divide_right_mono) auto
  ultimately have "\<bar>fl r - r\<bar> \<le> (\<bar>x\<bar> + 1 / 200) / 2 ^ 53" by linarith
  with rx have "\<bar>fl r - x\<bar> \<le> 1 / 200 + (\<bar>x\<bar> + 1 / 200) / 2 ^ 53" by linarith
  then show ?thesis by (simp only: py_round_def r_def)
qed

lemma arr_close:
  "\<bar>py_round (fmul m 12) 2 - 12 * m\<bar> \<le> 1 / 200 + (\<bar>m\<bar> + 1) / 2 ^ 48"
proof -
  define y where "y = fmul m 12"
  have y: "\<bar>y - 12 * m\<bar> \<le> \<bar>12 * m\<bar> / 2 ^ 53"
    using fl_err [of "m * 12"] by (simp add: y_def fmul_def mult.commute)
  have a: "\<bar>py_round y 2 - y\<bar> \<le> 1 / 200 + (\<bar>y\<bar> + 1 / 200) / 2 ^ 53"
    by (rule py_round2_err)
  have m12: "\<bar>12 * m\<bar> = 12 * \<bar>m\<bar>" by (simp add: abs_mult)
  from y m12 have y': "\<bar>y - 12 * m\<bar> \<le> 12 * \<bar>m\<bar> / 2 ^ 53" by simp
  have ya: "\<bar>y\<bar> \<le> 12 * \<bar>m\<bar> + 12 * \<bar>m\<bar> / 2 ^ 53" using y' m12 by linarith
  have "(\<bar>y\<bar> + 1 / 200) / 2 ^ 53 \<le> (12 * \<bar>m\<bar> + 12 * \<bar>m\<bar> / 2 ^ 53 + 1 / 200) / 2 ^ 53"
    using ya by (intro divide_right_mono) (linarith, simp)
  with a y' have "\<bar>py_round y 2 - 12 * m\<bar>
      \<le> 1 / 200 + (12 * \<bar>m\<bar> + 12 * \<bar>m\<bar> / 2 ^ 53 + 1 / 200) / 2 ^ 53 + 12 * \<bar>m\<bar> / 2 ^ 53"
    by linarith
  also have "\<dots> \<le> 1 / 200 + (\<bar>m\<bar> + 1) / 2 ^ 48"
    using abs_ge_zero [of m] by (simp add: field_simps)
  finally show ?thesis by (simp only: y_def)
qed

text \<open>
  Claim C5, as amended. \<^verbatim>\<open>calculate_arr\<close> is the float product of the engine's MRR figure
  and 12, rounded to 2 decimals. It has no computation path of its own: two stores with the
  same MRR figure have the same ARR. It stays within half a cent, and the rounding of the
  floats, of 12 times the MRR figure.
\<close>

theorem calculate_arr_from_mrr:
  "calculate_arr d sid = py_round (fmul (calculate_mrr d sid) 12) 2
   \<and> (calculate_mrr d sid = calculate_mrr d' sid' \<longrightarrow> calculate_arr d sid = calculate_arr d' sid')
   \<and> \<bar>calculate_arr d sid - 12 * calculate_mrr d sid\<bar>
        \<le> 1 / 200 + (\<bar>calculate_mrr d sid\<bar> + 1) / 2 ^ 48"
  using arr_close [of "calculate_mrr d sid"] by (simp add: calculate_arr_def)

text \<open>
  Claim C5 as stated fails: with one active customer paying \<^verbatim>\<open>0.07\<close> the MRR is
  \<^verbatim>\<open>0.07\<close>, \<^verbatim>\<open>0.07 * 12\<close> is the float \<^verbatim>\<open>0.8400000000000001\<close> and the ARR is its
  rounding \<^verbatim>\<open>0.84\<close>, a different float; the ARR is not the exact product either.
\<close>

theorem calculate_arr_not_exact:
  "calculate_arr store_cents ''s1'' \<noteq> fmul (calculate_mrr store_cents ''s1'') 12
   \<and> calculate_arr store_cents ''s1'' \<noteq> calculate_mrr store_cents ''s1'' * 12"
  by code_simp

theorem calculate_arr_from_mrr_witness:
  "calculate_mrr store_may ''s1'' = calculate_mrr store_april ''s1''
   \<and> calculate_arr store_may ''s1'' = calculate_arr store_april ''s1''"
proof -
  have h: "calculate_mrr store_may ''s1'' = calculate_mrr store_april ''s1''" by code_simp
  with calculate_arr_from_mrr [of store_may "''s1''" store_april "''s1''"] show ?thesis by simp
qed

section \<open>Churn rate\<close>

lemma calculate_churn_rate_alt:
  "calculate_churn_rate month d sid period0 =
     Inr \<lparr>cr_period = or_default period0 month,
          customers_at_start = length (cohort_at_start d sid (or_default period0 month)),
          churned = length (churned_within d sid (or_default period0 month)),
          churn_rate_pct =
            (if 0 < length (cohort_at_start d sid (or_default period0 month))
             then pct (length (churned_within d sid (or_default period0 month)))
                    (length (cohort_at_start d sid (or_default period0 month)))
             else 0)\<rparr>"
  by (simp add: calculate_churn_rate_def Let_def cohort_at_start_def churned_within_def
      churned_in_def pct_def py_truediv_def py_round_zero)

text \<open>
  Claim C7. \<^verbatim>\<open>calculate_churn_rate\<close> never raises \<^verbatim>\<open>ZeroDivisionError\<close>: it always returns a
  result. When \<^verbatim>\<open>customers_at_start\<close> is positive, \<^verbatim>\<open>churn_rate_pct\<close> is
  \<^verbatim>\<open>churned / customers_at_start * 100\<close> rounded to 2 decimals; when it is 0, the rate is 0.
\<close>

theorem churn_rate_never_divides_by_zero:
  "\<exists>r. calculate_churn_rate month d sid period0 = Inr r
     \<and> customers_at_start r = length (cohort_at_start d sid (or_default period0 month))
     \<and> churned r = length (churned_within d sid (or_default period0 month))
     \<and> (0 < customers_at_start r \<longrightarrow>
          churn_rate_pct r =
            py_round (fmul (fl (of_nat (churned r) / of_nat (customers_at_start r))) 100) 2)
     \<and> (customers_at_start r = 0 \<longrightarrow> churn_rate_pct r = 0)"
  by (simp add: calculate_churn_rate_alt pct_def)

theorem churn_rate_never_divides_by_zero_witness:
  "(\<exists>r. calculate_churn_rate ''2024-05'' store_may ''s1'' None = Inr r
        \<and> 0 < customers_at_start r \<and> churn_rate_pct r = 100)
   \<and> (\<exists>r. calculate_churn_rate ''2024-05'' store_lost ''s1'' None = Inr r
        \<and> customers_at_start r = 0 \<and> churn_rate_pct r = 0)"
proof -
  have a: "length (cohort_at_start store_may ''s1'' (or_default None ''2024-05'')) = 1"
    by code_simp
  have b: "length (churned_within store_may ''s1'' (or_default None ''2024-05'')) = 1"
    by code_simp
  have c: "py_round (fmul (fl (of_nat 1 / of_nat 1)) 100) 2 = 100"
    by code_simp
  have e: "length (cohort_at_start store_lost ''s1'' (or_default None ''2024-05'')) = 0"
    by code_simp
  from churn_rate_never_divides_by_zero [of "''2024-05''" store_may "''s1''" None] a b c
  have "\<exists>r. calculate_churn_rate ''2024-05'' store_may ''s1'' None = Inr r
        \<and> 0 < customers_at_start r \<and> churn_rate_pct r = 100"
    by auto
  moreover from churn_rate_never_divides_by_zero [of "''2024-05''" store_lost "''s1''" None] e
  have "\<exists>r. calculate_churn_rate ''2024-05'' store_lost ''s1'' None = Inr r
        \<and> customers_at_start r = 0 \<and> churn_rate_pct r = 0"
    by auto
  ultimately show ?thesis by simp
qed

text \<open>
  Claim C3, as amended. Take a customer of the startup whose \<^verbatim>\<open>started_at\<close> does not precede
  the first day of the period and who churned within the period. The customer is excluded
  from \<^verbatim>\<open>customers_at_start\<close>, which is the same with and without the customer, but is
  counted in \<^verbatim>\<open>churned\<close>, which is one higher with the customer. So \<^verbatim>\<open>churn_rate_pct\<close>
  with the customer is \<^verbatim>\<open>(churned + 1) / customers_at_start * 100\<close> rounded to 2 decimals,
  for the count \<^verbatim>\<open>churned\<close> without the customer, and 0 when \<^verbatim>\<open>customers_at_start\<close> is 0.
\<close>

theorem churn_same_period_customer:
  assumes "customers d = xs @ c # ys" and "customers d' = xs @ ys"
    and "c_startup_id c = sid"
    and "\<not> c_started_at c < or_default period0 month @ ''-01''"
    and "churned_in (or_default period0 month) c"
  shows "\<exists>r r'. calculate_churn_rate month d sid period0 = Inr r
           \<and> calculate_churn_rate month d' sid period0 = Inr r'
           \<and> customers_at_start r = customers_at_start r'
           \<and> churned r = churned r' + 1
           \<and> churn_rate_pct r' =
               (if customers_at_start r' = 0 then 0 else pct (churned r') (customers_at_start r'))
           \<and> churn_rate_pct r =
               (if customers_at_start r' = 0 then 0
                else pct (churned r' + 1) (customers_at_start r'))"
proof -
  let ?p = "or_default period0 month"
  have n: "length (cohort_at_start d sid ?p) = length (cohort_at_start d' sid ?p)"
    using assms by (simp add: cohort_at_start_def)
  have k: "length (churned_within d sid ?p) = length (churned_within d' sid ?p) + 1"
    using assms by (simp add: churned_within_def)
  show ?thesis
    by (simp add: calculate_churn_rate_alt n k)
qed

text \<open>
  Claim C3 as stated fails: with one customer from April in the cohort, a customer who
  started on 10 May and churned on 20 May raises the churn rate of May from 0 to 100.
\<close>

theorem churn_same_period_customer_counterexample:
  "customers store_may = customers store_april @ [brief]
   \<and> \<not> c_started_at brief < ''2024-05'' @ ''-01''
   \<and> churned_in ''2024-05'' brief
   \<and> calculate_churn_rate ''2024-05'' store_may ''s1'' (Some ''2024-05'')
       = Inr \<lparr>cr_period = ''2024-05'', customers_at_start = 1, churned = 1, churn_rate_pct = 100\<rparr>
   \<and> calculate_churn_rate ''2024-05'' store_april ''s1'' (Some ''2024-05'')
       = Inr \<lparr>cr_period = ''2024-05'', customers_at_start = 1, churned = 0, churn_rate_pct = 0\<rparr>"
  by code_simp

theorem churn_same_period_customer_witness:
  "\<exists>r r'. calculate_churn_rate ''2024-05'' store_may ''s1'' None = Inr r
           \<and> calculate_churn_rate ''2024-05'' store_april ''s1'' None = Inr r'
           \<and> customers_at_start r = customers_at_start r'
           \<and> churned r = churned r' + 1
           \<and> churn_rate_pct r' =
               (if customers_at_start r' = 0 then 0 else pct (churned r') (customers_at_start r'))
           \<and> churn_rate_pct r =
               (if customers_at_start r' = 0 then 0
                else pct (churned r' + 1) (customers_at_start r'))"
proof -
  have 1: "customers store_may = customers store_april @ brief # []" by code_simp
  have 2: "customers store_april = customers store_april @ []" by simp
  have 3: "c_startup_id brief = ''s1''" by code_simp
  have 4: "\<not> c_started_at brief < or_default None ''2024-05'' @ ''-01''" by code_simp
  have 5: "churned_in (or_default None ''2024-05'') brief" by code_simp
  show ?thesis by (rule churn_same_period_customer [OF 1 2 3 4 5])
qed

section \<open>Runway\<close>

lemma calculate_runway_alt:
  "calculate_runway d sid burn =
     Inr \<lparr>total_raised = py_round (kbn_sum (raised_amounts d sid)) 2,
          rr_mrr = calculate_mrr d sid,
          rr_monthly_burn = burn,
          net_burn = py_round (py_max0 (fsub burn (calculate_mrr d sid))) 2,
          runway_months =
            (if calculate_mrr d sid < burn
             then (if float_limit
                        \<le> fl (kbn_sum (raised_amounts d sid) / fsub burn (calculate_mrr d sid))
                   then Str infinity_sign
                   else if fl (kbn_sum (raised_amounts d sid) / fsub burn (calculate_mrr d sid))
                             \<le> - float_limit
                   then MinusInfinity
                   else Num (py_round (fl (kbn_sum (raised_amounts d sid)
                                             / fsub burn (calculate_mrr d sid))) 1))
             else Str infinity_sign)\<rparr>"
proof (cases "calculate_mrr d sid < burn")
  case True
  then have p: "0 < py_max0 (fsub burn (calculate_mrr d sid))"
    by (simp add: py_max0_pos_iff)
  then have q: "py_max0 (fsub burn (calculate_mrr d sid)) = fsub burn (calculate_mrr d sid)"
    by (simp add: py_max0_def split: if_splits)
  from p q have nz: "fsub burn (calculate_mrr d sid) \<noteq> 0" by simp
  show ?thesis
    using True p nz
    by (simp add: calculate_runway_def Let_def raised_amounts_def or_zero_sql_sum
        float_truediv_def q)
next
  case False
  then have p: "\<not> 0 < py_max0 (fsub burn (calculate_mrr d sid))"
    by (simp add: py_max0_pos_iff)
  show ?thesis
    using False p
    by (simp add: calculate_runway_def Let_def raised_amounts_def or_zero_sql_sum)
qed

lemma float_limit_pos: "0 < float_limit"
  by (simp add: float_limit_def)



text \<open>
  The overflowing quotient: when \<^verbatim>\<open>monthly_burn > mrr\<close> and the division gives the float
  infinity, the method reports the infinity sign although \<^verbatim>\<open>net_burn\<close> is positive; when it
  gives the negative infinity, which takes a negative sum of amounts, the method returns that
  float.
\<close>

lemma calculate_runway_overflow:
  assumes "calculate_mrr d sid < burn"
  shows "float_limit \<le> fl (kbn_sum (raised_amounts d sid) / fsub burn (calculate_mrr d sid))
           \<Longrightarrow> \<exists>r. calculate_runway d sid burn = Inr r \<and> runway_months r = Str infinity_sign"
    and "fl (kbn_sum (raised_amounts d sid) / fsub burn (calculate_mrr d sid)) \<le> - float_limit
           \<Longrightarrow> \<exists>r. calculate_runway d sid burn = Inr r \<and> runway_months r = MinusInfinity"
  using assms float_limit_pos by (auto simp: calculate_runway_alt)


section \<open>Dashboard\<close>

text \<open>
  Claim C9. \<^verbatim>\<open>kpi_dashboard\<close> always returns a snapshot holding the MRR, the ARR, the
  churn result and the headcount result. The snapshot holds the runway result exactly when
  \<^verbatim>\<open>monthly_burn > 0\<close>; with a \<^verbatim>\<open>monthly_burn\<close> of 0 its runway is the empty structure.
\<close>

theorem kpi_dashboard_runway_iff:
  "\<exists>s. kpi_dashboard month now d sid burn = Inr s
     \<and> d_mrr s = calculate_mrr d sid
     \<and> d_arr s = calculate_arr d sid
     \<and> calculate_churn_rate month d sid None = Inr (d_churn s)
     \<and> d_headcount s = headcount d sid
     \<and> (d_runway s \<noteq> None) = (0 < burn)
     \<and> (0 < burn \<longrightarrow> (\<exists>r. calculate_runway d sid burn = Inr r \<and> d_runway s = Some r))
     \<and> (burn = 0 \<longrightarrow> d_runway s = None)"
  by (simp add: kpi_dashboard_def Let_def calculate_churn_rate_alt calculate_runway_alt)

theorem kpi_dashboard_runway_iff_witness:
  "(\<exists>s r. kpi_dashboard ''2024-05'' ''2024-05-21T12:00:00'' store_may ''s1'' 5000 = Inr s
        \<and> calculate_runway store_may ''s1'' 5000 = Inr r \<and> d_runway s = Some r)
   \<and> (\<exists>s. kpi_dashboard ''2024-05'' ''2024-05-21T12:00:00'' store_may ''s1'' 0 = Inr s
        \<and> d_runway s = None)"
proof -
  have a: "(0::rat) < 5000" by simp
  from kpi_dashboard_runway_iff
         [of "''2024-05''" "''2024-05-21T12:00:00''" store_may "''s1''" 5000] a
  have "\<exists>s r. kpi_dashboard ''2024-05'' ''2024-05-21T12:00:00'' store_may ''s1'' 5000 = Inr s
        \<and> calculate_runway store_may ''s1'' 5000 = Inr r \<and> d_runway s = Some r"
    by blast
  moreover from kpi_dashboard_runway_iff
         [of "''2024-05''" "''2024-05-21T12:00:00''" store_may "''s1''" 0]
  have "\<exists>s. kpi_dashboard ''2024-05'' ''2024-05-21T12:00:00'' store_may ''s1'' 0 = Inr s
        \<and> d_runway s = None"
    by blast
  ultimately show ?thesis by simp
qed

section \<open>Metric history\<close>

lemma sorted_same_mset_eq:
  fixes xs ys :: "string list"
  assumes "sorted xs" and "sorted ys" and "mset xs = mset ys"
  shows "xs = ys"
proof -
  have "sort ys = xs" using assms by (intro properties_for_sort) simp_all
  moreover have "sort ys = ys" using assms by (intro properties_for_sort) simp_all
  ultimately show ?thesis by simp
qed

lemma metric_history_sorted: "sorted (map m_period (metric_history d sid mt))"
  by (simp add: metric_history_def)

lemma metric_history_mset:
  "mset (metric_history d sid mt)
     = filter_mset (\<lambda>m. m_startup_id m = sid \<and> m_metric_type m = mt) (mset (metrics d))"
  by (simp add: metric_history_def)

text \<open>
  Claim C10. \<^verbatim>\<open>metric_history\<close> returns the observations of the label recorded for the
  startup, all of them and nothing else, in non-decreasing bytewise order of their period
  strings. The order of insertion does not matter: two stores holding the same rows in any
  order give the same sequence of periods.
\<close>

theorem metric_history_ordered:
  "sorted (map m_period (metric_history d sid mt))
   \<and> mset (metric_history d sid mt)
       = filter_mset (\<lambda>m. m_startup_id m = sid \<and> m_metric_type m = mt) (mset (metrics d))
   \<and> (mset (metrics d') = mset (metrics d) \<longrightarrow>
        map m_period (metric_history d' sid mt) = map m_period (metric_history d sid mt))"
proof (intro conjI impI)
  assume "mset (metrics d') = mset (metrics d)"
  then have "mset (metric_history d' sid mt) = mset (metric_history d sid mt)"
    by (simp add: metric_history_mset)
  then have "mset (map m_period (metric_history d' sid mt))
               = mset (map m_period (metric_history d sid mt))"
    by (simp only: mset_map)
  with metric_history_sorted [of d' sid mt] metric_history_sorted [of d sid mt]
  show "map m_period (metric_history d' sid mt) = map m_period (metric_history d sid mt)"
    by (rule sorted_same_mset_eq)
qed (rule metric_history_sorted, rule metric_history_mset)

theorem metric_history_ordered_witness:
  "mset (metrics (store_metrics\<lparr>metrics := rev (metrics store_metrics)\<rparr>))
     = mset (metrics store_metrics)
   \<and> map m_period (metric_history (store_metrics\<lparr>metrics := rev (metrics store_metrics)\<rparr>)
                      ''s1'' ''nps'')
       = map m_period (metric_history store_metrics ''s1'' ''nps'')
   \<and> map m_period (metric_history store_metrics ''s1'' ''nps'')
       = [''2024-01'', ''2024-02'', ''2024-03'']"
proof (intro conjI)
  show h: "mset (metrics (store_metrics\<lparr>metrics := rev (metrics store_metrics)\<rparr>))
             = mset (metrics store_metrics)"
    by simp
  show "map m_period (metric_history store_metrics ''s1'' ''nps'')
             = [''2024-01'', ''2024-02'', ''2024-03'']"
    by code_simp
  show "map m_period (metric_history (store_metrics\<lparr>metrics := rev (metrics store_metrics)\<rparr>)
                      ''s1'' ''nps'')
       = map m_period (metric_history store_metrics ''s1'' ''nps'')"
    by (rule metric_history_ordered
               [of store_metrics "''s1''" "''nps''"
                   "store_metrics\<lparr>metrics := rev (metrics store_metrics)\<rparr>",
                THEN conjunct2, THEN conjunct2, THEN mp, OF h])
qed

section \<open>The Customer invariant\<close>

lemma customers_churn:
  "customers (churn_customer now d cid) = map (mark_churned now cid) (customers d)"
  by (simp add: churn_customer_def)

lemma mark_churned_hit:
  "c_id (mark_churned now cid x) = cid \<Longrightarrow>
     c_status (mark_churned now cid x) = ''churned''
     \<and> c_churned_at (mark_churned now cid x) = Some now"
  by (cases "c_id x = cid") (simp_all add: mark_churned_def)

lemma mark_churned_miss: "c_id x \<noteq> cid \<Longrightarrow> mark_churned now cid x = x"
  by (simp add: mark_churned_def)

lemma mark_churned_ok: "customer_ok x \<Longrightarrow> customer_ok (mark_churned now cid x)"
  by (cases "c_id x = cid") (simp_all add: mark_churned_def customer_ok_def)

lemma churn_hit:
  assumes "c \<in> set (customers (churn_customer now d cid))" and "c_id c = cid"
  shows "c_status c = ''churned'' \<and> c_churned_at c = Some now"
proof -
  from assms(1) obtain x where "c = mark_churned now cid x"
    unfolding customers_churn by (auto simp only: set_map)
  with assms(2) show ?thesis using mark_churned_hit [of now cid x] by simp
qed

lemma churn_miss:
  assumes "c \<in> set (customers d)" and "c_id c \<noteq> cid"
  shows "c \<in> set (customers (churn_customer now d cid))"
proof -
  from assms(1) have "mark_churned now cid c \<in> set (customers (churn_customer now d cid))"
    unfolding customers_churn by (simp only: set_map) (rule imageI)
  with mark_churned_miss [OF assms(2), of now] show ?thesis by simp
qed

lemma churn_customer_ok:
  "customers_ok d \<Longrightarrow> customers_ok (churn_customer now d cid)"
  unfolding customers_ok_def customers_churn
  by (induction "customers d" arbitrary: d) (simp_all add: list_all_iff mark_churned_ok)


lemma customers_committed_other:
  "customers (committed d (create_startup sid now d name stage founded)) = customers d"
  "customers (committed d (record_metric mid now month d sid mtype val period notes)) = customers d"
  "customers (committed d (add_employee eid now d sid name role dept salary)) = customers d"
  "customers (committed d (add_funding fid now d sid rname amount valuation investors)) = customers d"
  by (simp_all add: committed_def create_startup_def record_metric_def add_employee_def
      add_funding_def Let_def)

lemma add_customer_ok:
  "customers_ok d \<Longrightarrow> customers_ok (committed d (add_customer cid now d sid name mrr plan))"
  by (simp add: committed_def add_customer_def Let_def customers_ok_def customer_ok_def)

lemma customers_ok_same:
  "customers d' = customers d \<Longrightarrow> customers_ok d \<Longrightarrow> customers_ok d'"
  by (simp add: customers_ok_def)

lemma exec_ok:
  assumes "customers_ok d"
  shows "customers_ok (exec d cmd)"
proof (cases cmd)
  case (AddCustomer cid now sid name mrr plan)
  then show ?thesis using assms by (simp add: add_customer_ok)
next
  case (ChurnCustomer now cid)
  then show ?thesis using assms by (simp add: churn_customer_ok)
qed (use assms in \<open>simp_all add: customers_ok_same [OF _ assms] customers_committed_other\<close>)

lemma run_ok: "customers_ok d \<Longrightarrow> customers_ok (foldl exec d cmds)"
  by (induction cmds arbitrary: d) (simp_all add: exec_ok)

lemma init_db_ok: "customers_ok init_db"
  by (simp add: customers_ok_def init_db_def)


text \<open>
  Claim C8. Every writing operation preserves the Customer invariant, and every store
  reached from the empty one by any run of operations satisfies it. \<^verbatim>\<open>add_customer\<close>
  appends a customer with status active and no \<^verbatim>\<open>churned_at\<close>; after \<^verbatim>\<open>churn_customer\<close>
  every customer with the given id has status churned and \<^verbatim>\<open>churned_at\<close> set to the time of
  the call, and every other customer is as before.
\<close>

theorem customer_invariant_preserved:
  "(customers_ok d \<longrightarrow> customers_ok (exec d cmd))
   \<and> customers_ok (foldl exec init_db cmds)
   \<and> (add_customer cid now d sid name mrr plan = Inr (d', info) \<longrightarrow>
        (\<exists>c. customers d' = customers d @ [c] \<and> c_id c = cid
              \<and> c_status c = ''active'' \<and> c_churned_at c = None))
   \<and> (\<forall>c \<in> set (customers (churn_customer now d cid)).
          c_id c = cid \<longrightarrow> c_status c = ''churned'' \<and> c_churned_at c = Some now)
   \<and> (\<forall>c \<in> set (customers d).
          c_id c \<noteq> cid \<longrightarrow> c \<in> set (customers (churn_customer now d cid)))"
proof (intro conjI impI)
  assume "add_customer cid now d sid name mrr plan = Inr (d', info)"
  then show "\<exists>c. customers d' = customers d @ [c] \<and> c_id c = cid
              \<and> c_status c = ''active'' \<and> c_churned_at c = None"
    by (auto simp: add_customer_def Let_def split: if_splits)
next
  show "\<forall>c \<in> set (customers (churn_customer now d cid)).
          c_id c = cid \<longrightarrow> c_status c = ''churned'' \<and> c_churned_at c = Some now"
    by (intro ballI impI) (rule churn_hit)
  show "\<forall>c \<in> set (customers d). c_id c \<noteq> cid \<longrightarrow> c \<in> set (customers (churn_customer now d cid))"
    by (intro ballI impI) (rule churn_miss)
qed (simp_all add: exec_ok run_ok init_db_ok)

lemma add_customer_fresh:
  "cid \<notin> set (map c_id (customers d)) \<Longrightarrow>
     add_customer cid now d sid name mrr plan =
       Inr (d\<lparr>customers := customers d @
                [\<lparr>c_id = cid, c_startup_id = sid, c_name = name, c_plan = plan, c_mrr = mrr,
                  c_status = ''active'', c_started_at = now, c_churned_at = None,
                  c_notes = []\<rparr>]\<rparr>,
            \<lparr>ci_id = cid, ci_name = name, ci_mrr = mrr, ci_plan = plan\<rparr>)"
  by (simp add: add_customer_def)

theorem customer_invariant_preserved_witness:
  "customers_ok store_april
   \<and> customers_ok (exec store_april (ChurnCustomer ''2024-05-20T17:30:00'' ''c1''))
   \<and> customers_ok store_may
   \<and> (\<exists>d' info c.
         add_customer ''c2'' ''2024-05-10T09:00:00'' store_april ''s1'' ''Brief'' 200 ''monthly''
           = Inr (d', info)
         \<and> customers d' = customers store_april @ [c] \<and> c_id c = ''c2''
         \<and> c_status c = ''active'' \<and> c_churned_at c = None)
   \<and> brief \<in> set (customers (churn_customer ''2024-05-20T17:30:00'' store_may ''c2''))
   \<and> c_id brief = ''c2'' \<and> c_status brief = ''churned''
   \<and> c_churned_at brief = Some ''2024-05-20T17:30:00''"
proof -
  have a: "customers_ok store_april" by code_simp
  have f: "''c2'' \<notin> set (map c_id (customers store_april))" by code_simp
  obtain d' info where
    ins: "add_customer ''c2'' ''2024-05-10T09:00:00'' store_april ''s1'' ''Brief'' 200 ''monthly''
            = Inr (d', info)"
    using add_customer_fresh [OF f] by blast
  have b: "brief \<in> set (customers (churn_customer ''2024-05-20T17:30:00'' store_may ''c2''))"
    by code_simp
  have i: "c_id brief = ''c2''" by code_simp
  note t = customer_invariant_preserved
      [where d = store_april and cmd = "ChurnCustomer ''2024-05-20T17:30:00'' ''c1''"
         and cid = "''c2''" and now = "''2024-05-10T09:00:00''" and sid = "''s1''"
         and name = "''Brief''" and mrr = 200 and plan = "''monthly''" and d' = d' and info = info
         and cmds = "[acme,
      AddCustomer ''c1'' ''2024-04-02T09:00:00'' ''s1'' ''Early'' 500 ''monthly'',
      AddCustomer ''c2'' ''2024-05-10T09:00:00'' ''s1'' ''Brief'' 200 ''monthly'',
      ChurnCustomer ''2024-05-20T17:30:00'' ''c2'']"]
  note u = customer_invariant_preserved
      [where d = store_may and cid = "''c2''" and now = "''2024-05-20T17:30:00''"]
  have 1: "customers_ok (exec store_april (ChurnCustomer ''2024-05-20T17:30:00'' ''c1''))"
    by (rule t [THEN conjunct1, THEN mp, OF a])
  have 2: "customers_ok store_may"
    unfolding store_may_def by (rule t [THEN conjunct2, THEN conjunct1])
  have 3: "\<exists>c. customers d' = customers store_april @ [c] \<and> c_id c = ''c2''
         \<and> c_status c = ''active'' \<and> c_churned_at c = None"
    by (rule t [THEN conjunct2, THEN conjunct2, THEN conjunct1, THEN mp, OF ins])
  have 4: "c_status brief = ''churned'' \<and> c_churned_at brief = Some ''2024-05-20T17:30:00''"
    by (rule u [THEN conjunct2, THEN conjunct2, THEN conjunct2, THEN conjunct1,
                THEN bspec, OF b, THEN mp, OF i])
  from 3 obtain c where c: "customers d' = customers store_april @ [c]" "c_id c = ''c2''"
         "c_status c = ''active''" "c_churned_at c = None" by blast
  have 5: "\<exists>d' info c.
         add_customer ''c2'' ''2024-05-10T09:00:00'' store_april ''s1'' ''Brief'' 200 ''monthly''
           = Inr (d', info)
         \<and> customers d' = customers store_april @ [c] \<and> c_id c = ''c2''
         \<and> c_status c = ''active'' \<and> c_churned_at c = None"
    by (intro exI conjI) (rule ins, rule c(1), rule c(2), rule c(3), rule c(4))
  show ?thesis
    using a 1 2 5 b i 4 by (intro conjI) (simp_all only:)
qed

section \<open>Unknown startups and unchecked inputs\<close>

lemma record_metric_fresh:
  "mid \<notin> set (map m_id (metrics d)) \<Longrightarrow>
     record_metric mid now month d sid mtype val per remark =
       Inr (d\<lparr>metrics := metrics d @
                [\<lparr>m_id = mid, m_startup_id = sid, m_metric_type = mtype, m_value = val,
                  m_period = or_default per month, m_notes = remark, m_recorded_at = now\<rparr>]\<rparr>,
            \<lparr>m_id = mid, m_startup_id = sid, m_metric_type = mtype, m_value = val,
             m_period = or_default per month, m_notes = remark, m_recorded_at = now\<rparr>)"
  by (simp add: record_metric_def Let_def)

lemma add_employee_fresh:
  "eid \<notin> set (map e_id (employees d)) \<Longrightarrow>
     add_employee eid now d sid name role dept salary =
       Inr (d\<lparr>employees := employees d @
                [\<lparr>e_id = eid, e_startup_id = sid, e_name = name, e_role = role,
                  e_department = dept, e_salary = salary, e_hired_at = now, e_left_at = None\<rparr>]\<rparr>,
            \<lparr>ei_id = eid, ei_name = name, ei_role = role, ei_department = dept,
             ei_salary = salary\<rparr>)"
  by (simp add: add_employee_def Let_def)

lemma add_funding_fresh:
  "fid \<notin> set (map f_id (funding_rounds d)) \<Longrightarrow>
     add_funding fid now d sid rname amount valuation investors =
       Inr (d\<lparr>funding_rounds := funding_rounds d @
                [\<lparr>f_id = fid, f_startup_id = sid, f_round_name = rname, f_amount = amount,
                  f_valuation = valuation, f_closed_at = now,
                  f_investors = (case investors of None \<Rightarrow> [] | Some xs \<Rightarrow> xs),
                  f_notes = []\<rparr>]\<rparr>,
            \<lparr>fi_id = fid, fi_round = rname, fi_amount = amount, fi_valuation = valuation\<rparr>)"
  by (simp add: add_funding_def Let_def)

lemma filter_absent:
  "k \<notin> set (map f xs) \<Longrightarrow> filter (\<lambda>x. f x = k \<and> P x) xs = []"
  by (induction xs) auto

lemma filter_absent': "k \<notin> set (map f xs) \<Longrightarrow> filter (\<lambda>x. f x = k) xs = []"
  by (induction xs) auto

lemma no_customers_mrr:
  "sid \<notin> set (map c_startup_id (customers d)) \<Longrightarrow> calculate_mrr d sid = 0"
  by (simp add: calculate_mrr_alt active_mrrs_def filter_absent kbn_sum_Nil py_round_zero)

lemma no_customers_arr:
  "sid \<notin> set (map c_startup_id (customers d)) \<Longrightarrow> calculate_arr d sid = 0"
  by (simp add: calculate_arr_def no_customers_mrr fmul_def fl_zero py_round_zero)

lemma no_customers_churn:
  "sid \<notin> set (map c_startup_id (customers d)) \<Longrightarrow>
     calculate_churn_rate month d sid per =
       Inr \<lparr>cr_period = or_default per month, customers_at_start = 0, churned = 0,
            churn_rate_pct = 0\<rparr>"
  by (simp add: calculate_churn_rate_alt cohort_at_start_def churned_within_def filter_absent)

lemma no_rows_runway:
  assumes "sid \<notin> set (map c_startup_id (customers d))"
    and "sid \<notin> set (map f_startup_id (funding_rounds d))"
  shows "calculate_runway d sid burn =
       Inr \<lparr>total_raised = 0, rr_mrr = 0, rr_monthly_burn = burn,
            net_burn = py_round (py_max0 (fl burn)) 2,
            runway_months = (if 0 < burn then Num 0 else Str infinity_sign)\<rparr>"
  using assms
  by (simp add: calculate_runway_alt no_customers_mrr raised_amounts_def filter_absent'
      kbn_sum_Nil py_round_zero fsub_def fl_zero fl_pos_iff float_limit_pos
      not_le [THEN iffD2, OF float_limit_pos])

lemma no_employees_headcount:
  assumes "sid \<notin> set (map e_startup_id (employees d))"
  shows "total_headcount (headcount d sid) = 0 \<and> total_salary_cost (headcount d sid) = 0
         \<and> by_department (headcount d sid) = Map.empty"
  using assms
  by (simp add: headcount_def Let_def filter_absent or_zero_sql_sum kbn_sum_Nil py_round_zero)

lemma unknown_name:
  "sid \<notin> set (map s_id (startups d)) \<Longrightarrow> find (\<lambda>s. s_id s = sid) (startups d) = None"
  by (auto simp: find_None_iff)

text \<open>
  Claim C1, as amended. No query checks that the startup exists. With a \<^verbatim>\<open>startup_id\<close>
  that no Startup of the store has, \<^verbatim>\<open>calculate_churn_rate\<close>, \<^verbatim>\<open>calculate_runway\<close> and
  \<^verbatim>\<open>kpi_dashboard\<close> return a result, the dashboard under the name "Unknown". When no row
  of the store carries the id, the results are zero-valued: MRR 0, ARR 0, a churn rate of 0
  from 0 customers, 0 raised, a headcount of 0 with no department.
\<close>

theorem unknown_startup_not_rejected:
  assumes "sid \<notin> set (map s_id (startups d))"
  shows
    "(\<exists>c r s. calculate_churn_rate month d sid per = Inr c
        \<and> calculate_runway d sid burn = Inr r
        \<and> kpi_dashboard month now d sid burn = Inr s \<and> d_startup s = ''Unknown'')
     \<and> (sid \<notin> set (map c_startup_id (customers d)) \<longrightarrow>
          calculate_mrr d sid = 0 \<and> calculate_arr d sid = 0
          \<and> calculate_churn_rate month d sid per =
              Inr \<lparr>cr_period = or_default per month, customers_at_start = 0, churned = 0,
                   churn_rate_pct = 0\<rparr>)
     \<and> (sid \<notin> set (map c_startup_id (customers d))
          \<and> sid \<notin> set (map f_startup_id (funding_rounds d)) \<longrightarrow>
          calculate_runway d sid burn =
            Inr \<lparr>total_raised = 0, rr_mrr = 0, rr_monthly_burn = burn,
                 net_burn = py_round (py_max0 (fl burn)) 2,
                 runway_months = (if 0 < burn then Num 0 else Str infinity_sign)\<rparr>)
     \<and> (sid \<notin> set (map e_startup_id (employees d)) \<longrightarrow>
          total_headcount (headcount d sid) = 0 \<and> total_salary_cost (headcount d sid) = 0
          \<and> by_department (headcount d sid) = Map.empty)"
proof (intro conjI impI)
  show "\<exists>c r s. calculate_churn_rate month d sid per = Inr c
        \<and> calculate_runway d sid burn = Inr r
        \<and> kpi_dashboard month now d sid burn = Inr s \<and> d_startup s = ''Unknown''"
    using unknown_name [OF assms]
    by (simp add: kpi_dashboard_def Let_def calculate_churn_rate_alt calculate_runway_alt)
next
  assume "sid \<notin> set (map c_startup_id (customers d))
          \<and> sid \<notin> set (map f_startup_id (funding_rounds d))"
  then show "calculate_runway d sid burn =
            Inr \<lparr>total_raised = 0, rr_mrr = 0, rr_monthly_burn = burn,
                 net_burn = py_round (py_max0 (fl burn)) 2,
                 runway_months = (if 0 < burn then Num 0 else Str infinity_sign)\<rparr>"
    by (intro no_rows_runway) simp_all
next
  assume "sid \<notin> set (map e_startup_id (employees d))"
  then show "total_headcount (headcount d sid) = 0" "total_salary_cost (headcount d sid) = 0"
    "by_department (headcount d sid) = Map.empty"
    using no_employees_headcount [of sid d] by simp_all
qed (simp_all add: no_customers_mrr no_customers_arr no_customers_churn)

text \<open>
  Claim C1 as stated fails: the store has no Startup "ghost", yet the queries for "ghost"
  return zero-valued results.
\<close>

theorem unknown_startup_not_rejected_counterexample:
  "''ghost'' \<notin> set (map s_id (startups store_may))
   \<and> calculate_mrr store_may ''ghost'' = 0
   \<and> calculate_arr store_may ''ghost'' = 0
   \<and> calculate_churn_rate ''2024-05'' store_may ''ghost'' None
       = Inr \<lparr>cr_period = ''2024-05'', customers_at_start = 0, churned = 0, churn_rate_pct = 0\<rparr>
   \<and> calculate_runway store_may ''ghost'' 5000
       = Inr \<lparr>total_raised = 0, rr_mrr = 0, rr_monthly_burn = 5000, net_burn = 5000,
              runway_months = Num 0\<rparr>
   \<and> total_headcount (headcount store_may ''ghost'') = 0"
  by code_simp

theorem unknown_startup_not_rejected_witness:
  "''ghost'' \<notin> set (map s_id (startups store_may))
   \<and> ''ghost'' \<notin> set (map c_startup_id (customers store_may))
   \<and> ''ghost'' \<notin> set (map f_startup_id (funding_rounds store_may))
   \<and> ''ghost'' \<notin> set (map e_startup_id (employees store_may))
   \<and> (calculate_mrr store_may ''ghost'' = 0 \<and> calculate_arr store_may ''ghost'' = 0
        \<and> calculate_churn_rate ''2024-05'' store_may ''ghost'' None =
            Inr \<lparr>cr_period = or_default None ''2024-05'', customers_at_start = 0, churned = 0,
                 churn_rate_pct = 0\<rparr>)
   \<and> calculate_runway store_may ''ghost'' 5000 =
        Inr \<lparr>total_raised = 0, rr_mrr = 0, rr_monthly_burn = 5000,
             net_burn = py_round (py_max0 (fl 5000)) 2,
             runway_months = (if (0::rat) < 5000 then Num 0 else Str infinity_sign)\<rparr>
   \<and> (total_headcount (headcount store_may ''ghost'') = 0
        \<and> total_salary_cost (headcount store_may ''ghost'') = 0
        \<and> by_department (headcount store_may ''ghost'') = Map.empty)"
proof -
  have h0: "''ghost'' \<notin> set (map s_id (startups store_may))" by code_simp
  have h1: "''ghost'' \<notin> set (map c_startup_id (customers store_may))" by code_simp
  have h2: "''ghost'' \<notin> set (map f_startup_id (funding_rounds store_may))" by code_simp
  have h3: "''ghost'' \<notin> set (map e_startup_id (employees store_may))" by code_simp
  note t = unknown_startup_not_rejected
      [OF h0, where month = "''2024-05''" and now = "''2024-05-21T08:00:00''"
         and per = None and burn = 5000]
  note r = t [THEN conjunct2]
  note c1 = r [THEN conjunct1, THEN mp, OF h1]
  note r = r [THEN conjunct2]
  note c2 = r [THEN conjunct1, THEN mp, OF conjI [OF h1 h2]]
  note c3 = r [THEN conjunct2, THEN mp, OF h3]
  show ?thesis
    by (intro conjI h0 h1 h2 h3 c1 c2 c3)
qed

text \<open>
  Claim C2, as amended. No operation validates its numeric input. A negative \<^verbatim>\<open>mrr\<close>,
  \<^verbatim>\<open>salary\<close>, \<^verbatim>\<open>amount\<close> or \<^verbatim>\<open>value\<close> is stored as it is by \<^verbatim>\<open>add_customer\<close>,
  \<^verbatim>\<open>add_employee\<close>, \<^verbatim>\<open>add_funding\<close> and \<^verbatim>\<open>record_metric\<close> whenever the generated row
  identifier is new, and \<^verbatim>\<open>calculate_runway\<close> returns a result for a negative
  \<^verbatim>\<open>monthly_burn\<close>.
\<close>

theorem negative_input_accepted:
  assumes "x < 0"
  shows
    "(cid \<notin> set (map c_id (customers d)) \<longrightarrow>
        (\<exists>d' info c. add_customer cid now d sid name x plan = Inr (d', info)
           \<and> customers d' = customers d @ [c] \<and> c_mrr c = x \<and> ci_mrr info = x))
     \<and> (eid \<notin> set (map e_id (employees d)) \<longrightarrow>
          (\<exists>d' info e. add_employee eid now d sid name role dept x = Inr (d', info)
             \<and> employees d' = employees d @ [e] \<and> e_salary e = x \<and> ei_salary info = x))
     \<and> (fid \<notin> set (map f_id (funding_rounds d)) \<longrightarrow>
          (\<exists>d' info f. add_funding fid now d sid rname x valuation investors = Inr (d', info)
             \<and> funding_rounds d' = funding_rounds d @ [f] \<and> f_amount f = x
             \<and> fi_amount info = x))
     \<and> (mid \<notin> set (map m_id (metrics d)) \<longrightarrow>
          (\<exists>d' m. record_metric mid now month d sid mtype x per remark = Inr (d', m)
             \<and> metrics d' = metrics d @ [m] \<and> m_value m = x))
     \<and> (\<exists>r. calculate_runway d sid x = Inr r \<and> rr_monthly_burn r = x)"
  by (simp add: add_customer_fresh add_employee_fresh add_funding_fresh record_metric_fresh
      calculate_runway_alt)

text \<open>
  Claim C2 as stated fails: \<^verbatim>\<open>add_customer\<close> with an \<^verbatim>\<open>mrr\<close> of -5 writes the customer, and
  \<^verbatim>\<open>calculate_runway\<close> with a \<^verbatim>\<open>monthly_burn\<close> of -50 reads the store and returns a result.
\<close>

theorem negative_input_accepted_counterexample:
  "add_customer ''c9'' ''2024-05-21T08:00:00'' store_april ''s1'' ''Refund'' (- 5) ''monthly''
     = Inr (store_april\<lparr>customers := customers store_april @
              [\<lparr>c_id = ''c9'', c_startup_id = ''s1'', c_name = ''Refund'', c_plan = ''monthly'',
                c_mrr = - 5, c_status = ''active'', c_started_at = ''2024-05-21T08:00:00'',
                c_churned_at = None, c_notes = []\<rparr>]\<rparr>,
            \<lparr>ci_id = ''c9'', ci_name = ''Refund'', ci_mrr = - 5, ci_plan = ''monthly''\<rparr>)
   \<and> calculate_runway store_funded ''s1'' (- 50)
       = Inr \<lparr>total_raised = 100, rr_mrr = 0, rr_monthly_burn = - 50, net_burn = 0,
              runway_months = Str infinity_sign\<rparr>"
  by code_simp

theorem negative_input_accepted_witness:
  "(- 5 :: rat) < 0
   \<and> ''c9'' \<notin> set (map c_id (customers store_april))
   \<and> ''e9'' \<notin> set (map e_id (employees store_april))
   \<and> ''f9'' \<notin> set (map f_id (funding_rounds store_april))
   \<and> ''m9'' \<notin> set (map m_id (metrics store_april))
   \<and> (\<exists>d' info c. add_customer ''c9'' ''2024-05-21T08:00:00'' store_april ''s1'' ''Refund''
                       (- 5) ''monthly'' = Inr (d', info)
          \<and> customers d' = customers store_april @ [c] \<and> c_mrr c = - 5 \<and> ci_mrr info = - 5)
   \<and> (\<exists>d' info e. add_employee ''e9'' ''2024-05-21T08:00:00'' store_april ''s1'' ''Refund''
                       ''cto'' ''eng'' (- 5) = Inr (d', info)
          \<and> employees d' = employees store_april @ [e] \<and> e_salary e = - 5
          \<and> ei_salary info = - 5)
   \<and> (\<exists>d' info f. add_funding ''f9'' ''2024-05-21T08:00:00'' store_april ''s1'' ''Seed''
                       (- 5) None None = Inr (d', info)
          \<and> funding_rounds d' = funding_rounds store_april @ [f] \<and> f_amount f = - 5
          \<and> fi_amount info = - 5)
   \<and> (\<exists>d' m. record_metric ''m9'' ''2024-05-21T08:00:00'' ''2024-05'' store_april ''s1''
                  ''nps'' (- 5) None [] = Inr (d', m)
          \<and> metrics d' = metrics store_april @ [m] \<and> m_value m = - 5)
   \<and> (\<exists>r. calculate_runway store_april ''s1'' (- 5) = Inr r \<and> rr_monthly_burn r = - 5)"
proof -
  have h0: "(- 5 :: rat) < 0" by simp
  have h1: "''c9'' \<notin> set (map c_id (customers store_april))" by code_simp
  have h2: "''e9'' \<notin> set (map e_id (employees store_april))" by code_simp
  have h3: "''f9'' \<notin> set (map f_id (funding_rounds store_april))" by code_simp
  have h4: "''m9'' \<notin> set (map m_id (metrics store_april))" by code_simp
  note t = negative_input_accepted
      [OF h0, where d = store_april and sid = "''s1''" and now = "''2024-05-21T08:00:00''"
         and month = "''2024-05''" and cid = "''c9''" and name = "''Refund''"
         and plan = "''monthly''" and eid = "''e9''" and role = "''cto''" and dept = "''eng''"
         and fid = "''f9''" and rname = "''Seed''" and valuation = None and investors = None
         and mid = "''m9''" and mtype = "''nps''" and per = None and remark = "[]"]
  note c1 = t [THEN conjunct1, THEN mp, OF h1]
  note r = t [THEN conjunct2]
  note c2 = r [THEN conjunct1, THEN mp, OF h2]
  note r = r [THEN conjunct2]
  note c3 = r [THEN conjunct1, THEN mp, OF h3]
  note r = r [THEN conjunct2]
  note c4 = r [THEN conjunct1, THEN mp, OF h4]
  note c5 = r [THEN conjunct2]
  show ?thesis
    by (intro conjI h0 h1 h2 h3 h4 c1 c2 c3 c4 c5)
qed

end
